theory Spec2Isabelle
  imports Complex_Main "HOL-Library.AList"
begin

section \<open>Placement validation in proc\_gen\_rel\_demos.py\<close>

text \<open>
  The development embeds the body of the trial loop of \<open>main\<close> in
  \<^verbatim>\<open>src/rpdiff/data_gen/rel_demo_aug/proc_gen_rel_demos.py\<close>: point-cloud fusion
  (lines 612-618), the placement composer (lines 685-720), the first evaluation
  (lines 731-749), the upside-down test (lines 762-812), the aggregate and the
  running success list (lines 816-823) and the saved demonstration (lines 866-895).

  Numbers are real numbers: the arithmetic of numpy's float64 is idealised to exact
  arithmetic, so every equation below is an equation of the exact values, and says
  nothing about rounding.
\<close>

subsection \<open>Vectors and 3x3 matrices\<close>

datatype vec3 = V3 (vx: real) (vy: real) (vz: real)

text \<open>A 3x3 array, row by row.\<close>

datatype mat3 = M3 real real real  real real real  real real real

fun vadd :: "vec3 \<Rightarrow> vec3 \<Rightarrow> vec3" where
  "vadd (V3 a b c) (V3 x y z) = V3 (a + x) (b + y) (c + z)"

fun vsub :: "vec3 \<Rightarrow> vec3 \<Rightarrow> vec3" where
  "vsub (V3 a b c) (V3 x y z) = V3 (a - x) (b - y) (c - z)"

fun vneg :: "vec3 \<Rightarrow> vec3" where
  "vneg (V3 a b c) = V3 (- a) (- b) (- c)"

fun vscale :: "real \<Rightarrow> vec3 \<Rightarrow> vec3" where
  "vscale k (V3 a b c) = V3 (k * a) (k * b) (k * c)"

fun dot :: "vec3 \<Rightarrow> vec3 \<Rightarrow> real" where
  "dot (V3 a b c) (V3 x y z) = a * x + b * y + c * z"

text \<open>\<^verbatim>\<open>np.linalg.norm\<close> of a vector (the 2-norm).\<close>

definition linalg_norm :: "vec3 \<Rightarrow> real" where
  "linalg_norm v = sqrt (dot v v)"

definition eye3 :: mat3 where
  "eye3 = M3 1 0 0  0 1 0  0 0 1"

fun mat_vec :: "mat3 \<Rightarrow> vec3 \<Rightarrow> vec3" where
  "mat_vec (M3 a b c d e f g h i) (V3 x y z) =
     V3 (a * x + b * y + c * z) (d * x + e * y + f * z) (g * x + h * y + i * z)"

fun matmul3 :: "mat3 \<Rightarrow> mat3 \<Rightarrow> mat3" where
  "matmul3 (M3 a b c d e f g h i) (M3 a' b' c' d' e' f' g' h' i') =
     M3 (a * a' + b * d' + c * g') (a * b' + b * e' + c * h') (a * c' + b * f' + c * i')
        (d * a' + e * d' + f * g') (d * b' + e * e' + f * h') (d * c' + e * f' + f * i')
        (g * a' + h * d' + i * g') (g * b' + h * e' + i * h') (g * c' + h * f' + i * i')"

fun transpose3 :: "mat3 \<Rightarrow> mat3" where
  "transpose3 (M3 a b c d e f g h i) = M3 a d g  b e h  c f i"

text \<open>The second column, \<^verbatim>\<open>m[:, 1]\<close>.\<close>

fun column1 :: "mat3 \<Rightarrow> vec3" where
  "column1 (M3 a b c d e f g h i) = V3 b e h"

fun det3 :: "mat3 \<Rightarrow> real" where
  "det3 (M3 a b c d e f g h i) =
     a * (e * i - f * h) - b * (d * i - f * g) + c * (d * h - e * g)"

fun adjugate3 :: "mat3 \<Rightarrow> mat3" where
  "adjugate3 (M3 a b c d e f g h i) =
     M3 (e * i - f * h) (c * h - b * i) (b * f - c * e)
        (f * g - d * i) (a * i - c * g) (c * d - a * f)
        (d * h - e * g) (b * g - a * h) (a * e - b * d)"

fun scale3 :: "real \<Rightarrow> mat3 \<Rightarrow> mat3" where
  "scale3 k (M3 a b c d e f g h i) =
     M3 (k * a) (k * b) (k * c) (k * d) (k * e) (k * f) (k * g) (k * h) (k * i)"

text \<open>The inverse of a 3x3 array; \<open>None\<close> where the array is singular.\<close>

definition inv3 :: "mat3 \<Rightarrow> mat3 option" where
  "inv3 m = (if det3 m = 0 then None else Some (scale3 (1 / det3 m) (adjugate3 m)))"

subsection \<open>Poses as homogeneous matrices\<close>

text \<open>
  Every 4x4 array of the trial loop is built by \<^verbatim>\<open>util.matrix_from_pose\<close>, by
  \<^verbatim>\<open>np.eye(4)\<close> with its upper blocks assigned, or as a product or inverse of such
  arrays, so its last row is \<^verbatim>\<open>[0, 0, 0, 1]\<close>. \<open>HMat r t\<close> is the array with upper
  left 3x3 block \<open>r\<close> (the orientation), last column \<open>t\<close> (the position) and that last
  row. A pose given as a position and a quaternion is identified with the array
  \<^verbatim>\<open>util.matrix_from_pose\<close> makes of it.
\<close>

datatype hmat = HMat (rot: mat3) (trans: vec3)

datatype error = ValueError | LinAlgError | MalformedPoseError

text \<open>\<^verbatim>\<open>np.eye(4)\<close>, and \<^verbatim>\<open>util.unit_pose()\<close>.\<close>

definition eye4 :: hmat where
  "eye4 = HMat eye3 (V3 0 0 0)"

text \<open>\<^verbatim>\<open>np.matmul\<close> of two such arrays.\<close>

fun matmul :: "hmat \<Rightarrow> hmat \<Rightarrow> hmat" where
  "matmul (HMat a s) (HMat b t) = HMat (matmul3 a b) (vadd (mat_vec a t) s)"

text \<open>
  \<^verbatim>\<open>np.linalg.inv\<close>: the determinant of the 4x4 array is the determinant of its
  upper left block, and numpy raises \<^verbatim>\<open>LinAlgError\<close> on a singular array.
\<close>

definition linalg_inv :: "hmat \<Rightarrow> error + hmat" where
  "linalg_inv m =
     (case inv3 (rot m) of
        None \<Rightarrow> Inl LinAlgError
      | Some r \<Rightarrow> Inr (HMat r (vneg (mat_vec r (trans m)))))"

text \<open>
  The invariant of a RigidPose (section 3 of the specification): the upper left block is
  orthonormal.
\<close>

definition orthonormal :: "mat3 \<Rightarrow> bool" where
  "orthonormal r \<longleftrightarrow> matmul3 r (transpose3 r) = eye3"

definition valid_pose :: "hmat \<Rightarrow> bool" where
  "valid_pose m \<longleftrightarrow> orthonormal (rot m)"

subsection \<open>Point-cloud fusion (lines 612-618)\<close>

text \<open>\<^verbatim>\<open>np.mean(pts, axis=0)\<close>.\<close>

definition np_mean :: "vec3 list \<Rightarrow> vec3" where
  "np_mean pts =
     V3 (sum_list (map vx pts) / real (length pts))
        (sum_list (map vy pts) / real (length pts))
        (sum_list (map vz pts) / real (length pts))"

text \<open>
  The fusion of one object's points, \<open>obj_pcd_pts\<close> holding one array per camera.
  \<^verbatim>\<open>np.concatenate\<close> raises \<^verbatim>\<open>ValueError\<close> on an empty list of arrays. On arrays
  without any point numpy's mean is nan (with a warning, not an exception) and the
  selection ranges over no point, so the result is the empty cloud; that case is written
  out, since the mean of no points is not nan in HOL.
\<close>

definition fuse :: "vec3 list list \<Rightarrow> error + vec3 list" where
  "fuse obj_pcd_pts =
     (if obj_pcd_pts = [] then Inl ValueError
      else
        let target_obj_pcd_obs = concat obj_pcd_pts in
        if target_obj_pcd_obs = [] then Inr []
        else
          let target_pts_mean = np_mean target_obj_pcd_obs in
          Inr (filter (\<lambda>q. linalg_norm (vsub q target_pts_mean) < 0.2) target_obj_pcd_obs))"

subsection \<open>Helpers of the repository that are not among the sources\<close>

text \<open>
  Modelled from the spec: \<^verbatim>\<open>util.convert_reference_frame\<close> of
  \<^verbatim>\<open>rpdiff_robot.utils.util\<close> is missing. Section 4.1: it re-expresses a pose from one
  ambient frame to another, \<open>invert a\<close> is the pose with
  \<open>compose a (invert a) = identity\<close>, composition is the product of the arrays, and an
  operation of the frame algebra fails with \<^verbatim>\<open>MalformedPoseError\<close> on a pose whose
  block is not orthonormal.

  What the helper returns is fixed by its two calls in \<open>main\<close> (lines 788-798), by the
  comments and names \<open>main\<close> gives them and by the prose of section 4.4. With the
  identity as source frame and the parent's start pose as target frame, the child's world
  pose becomes "the final relative pose of the child object", its pose in the parent's
  local frame. With the upside-down pose as source frame and the identity as target frame,
  that relative pose becomes "the final world frame pose of the child object in upside
  down pose". Both are \<open>pose_frame_source \<circ> (pose_frame_target\<inverse> \<circ> pose_source)\<close>: the
  pose is taken out of the target frame and put into the source frame.
\<close>

definition invert :: "hmat \<Rightarrow> error + hmat" where
  "invert a = (if valid_pose a then linalg_inv a else Inl MalformedPoseError)"

record reference_frame =
  pose_source :: hmat
  pose_frame_target :: hmat
  pose_frame_source :: hmat

definition convert_reference_frame :: "reference_frame \<Rightarrow> error + hmat" where
  "convert_reference_frame f =
     (if valid_pose (pose_source f) \<and> valid_pose (pose_frame_source f) then
        case invert (pose_frame_target f) of
          Inl e \<Rightarrow> Inl e
        | Inr target_inv \<Rightarrow>
            Inr (matmul (pose_frame_source f) (matmul target_inv (pose_source f)))
      else Inl MalformedPoseError)"

text \<open>
  Modelled from the spec: the formula as section 3 prints it for the triple
  (pose\_source, pose\_frame\_source, pose\_frame\_target),
  \<open>pose_frame_target \<circ> (pose_frame_source\<inverse> \<circ> pose_source)\<close>. It has the two frames the
  other way round. It is kept only to show that it is not what the calls of \<open>main\<close>
  are said to return; no other definition uses it.
\<close>

definition convert_reference_frame_as_printed :: "reference_frame \<Rightarrow> error + hmat" where
  "convert_reference_frame_as_printed f =
     (if valid_pose (pose_source f) \<and> valid_pose (pose_frame_target f) then
        case invert (pose_frame_source f) of
          Inl e \<Rightarrow> Inl e
        | Inr source_inv \<Rightarrow>
            Inr (matmul (pose_frame_target f) (matmul source_inv (pose_source f)))
      else Inl MalformedPoseError)"

text \<open>
  Modelled from the spec: \<^verbatim>\<open>util.transform_pcd\<close> is missing. Section 4.6: the cloud
  rigidly transformed by the transform, every point \<open>q\<close> becoming \<open>r q + t\<close>.
\<close>

definition transform_pcd :: "vec3 list \<Rightarrow> hmat \<Rightarrow> vec3 list" where
  "transform_pcd pcd t = map (\<lambda>q. vadd (mat_vec (rot t) q) (trans t)) pcd"

text \<open>
  Modelled from the spec: \<^verbatim>\<open>util.angle_from_3d_vectors\<close> is missing. Section 4.5: the
  angle between an object body axis and world-up.
\<close>

definition angle_from_3d_vectors :: "vec3 \<Rightarrow> vec3 \<Rightarrow> real" where
  "angle_from_3d_vectors u v = arccos (dot u v / (linalg_norm u * linalg_norm v))"

text \<open>
  Modelled from the spec: \<^verbatim>\<open>common.euler2rot\<close> of the airobot library is missing.
  Section 4.4, step 1: a rotation by the given angles about fixed axes, here roll, pitch
  and yaw about x, y and z; \<^verbatim>\<open>euler2rot([np.pi, 0, 0])\<close> is the rotation by 180 degrees
  about x.
\<close>

definition rot_x :: "real \<Rightarrow> mat3" where
  "rot_x a = M3 1 0 0  0 (cos a) (- sin a)  0 (sin a) (cos a)"

definition rot_y :: "real \<Rightarrow> mat3" where
  "rot_y a = M3 (cos a) 0 (sin a)  0 1 0  (- sin a) 0 (cos a)"

definition rot_z :: "real \<Rightarrow> mat3" where
  "rot_z a = M3 (cos a) (- sin a) 0  (sin a) (cos a) 0  0 0 1"

definition euler2rot :: "vec3 \<Rightarrow> mat3" where
  "euler2rot e = matmul3 (rot_z (vz e)) (matmul3 (rot_y (vy e)) (rot_x (vx e)))"

subsection \<open>The simulator\<close>

text \<open>
  The simulator holds a pose for every body. \<^verbatim>\<open>pb_client.reset_body\<close> writes one,
  \<^verbatim>\<open>pb_client.get_body_state\<close> and \<^verbatim>\<open>p.getBasePositionAndOrientation\<close> read one.
  While \<^verbatim>\<open>set_step_sim(True)\<close> holds the poses change by these writes only. What the
  physics does during the two settling periods (\<^verbatim>\<open>set_step_sim(False)\<close> followed by
  \<^verbatim>\<open>time.sleep(0.5)\<close>) and what \<^verbatim>\<open>p.getContactPoints\<close> answers are not part of the
  program: they are parameters, and every theorem holds for all of them.
\<close>

type_synonym body_id = nat

type_synonym sim = "body_id \<Rightarrow> hmat"

definition get_body_state :: "sim \<Rightarrow> body_id \<Rightarrow> hmat" where
  "get_body_state s b = s b"

definition reset_body :: "sim \<Rightarrow> body_id \<Rightarrow> hmat \<Rightarrow> sim" where
  "reset_body s b pose = s(b := pose)"

record 'c physics =
  settle_placed :: "sim \<Rightarrow> sim"
  settle_upside_down :: "sim \<Rightarrow> sim"
  getContactPoints :: "sim \<Rightarrow> body_id \<Rightarrow> body_id \<Rightarrow> 'c list"

subsection \<open>Configuration and state of a run\<close>

text \<open>
  \<open>load_pose_type\<close> is \<^verbatim>\<open>pc_master_dict['parent']['load_pose_type']\<close>,
  \<open>upright_parent_ori_mat\<close> is \<^verbatim>\<open>common.quat2rot\<close> of the upright orientation of the
  parent's class, \<open>upright_ori_diff_thresh\<close> is the command-line option of that name.
\<close>

record config =
  parent_class :: string
  child_class :: string
  load_pose_type :: string
  upright_parent_ori_mat :: mat3
  upright_ori_diff_thresh :: real
  parent_obj_id :: body_id
  child_obj_id :: body_id

text \<open>The default of \<^verbatim>\<open>--upright_ori_diff_thresh\<close>, \<^verbatim>\<open>np.deg2rad(15)\<close>.\<close>

definition default_upright_ori_diff_thresh :: real where
  "default_upright_ori_diff_thresh = 15 * pi / 180"

text \<open>
  What the collaborators hand to one trial: per object the cropped points of every
  camera (\<^verbatim>\<open>pc_obs_info['pcd_pts']\<close>), and the transform that
  \<^verbatim>\<open>proc_gen_manager.infer_relation_task\<close> returned in this trial (line 641). The
  proposer computes it from the fused clouds, the meshes and the start poses of this very
  trial and is not part of the program, so the transform is a value of the one trial:
  nothing is said about the transform another trial, with other clouds, would be given.
\<close>

record trial_input =
  pcd_pts_parent :: "vec3 list list"
  pcd_pts_child :: "vec3 list list"
  inferred_relative_trans :: hmat

text \<open>
  The saved demonstration, \<^verbatim>\<open>aug_save_dict\<close>; pairs are (parent, child). The entries
  that are constants or are copied from the set-up of the trial (camera arrays, object
  ids, mesh files, part poses) are left out.
\<close>

record demo =
  success :: bool
  multi_obj_names :: "string \<times> string"
  multi_obj_start_pcd :: "vec3 list \<times> vec3 list"
  multi_obj_final_pcd :: "vec3 list \<times> vec3 list"
  multi_obj_start_obj_pose :: "hmat \<times> hmat"
  multi_obj_final_obj_pose :: "hmat \<times> hmat"

text \<open>
  The state that outlives a trial: the simulator, \<^verbatim>\<open>place_success_list\<close>, and the
  files \<^verbatim>\<open>demo_aug_<iteration>.npz\<close> by their iteration.
\<close>

record run_state =
  sim_state :: sim
  place_success_list :: "bool list"
  demo_aug :: "nat \<rightharpoonup> demo"

record trial_result =
  success_crit_dict :: "(string \<times> bool) list"
  place_success :: bool
  current_success_rate :: real
  final_parent_pose :: hmat
  final_child_pose :: hmat
  parent_upside_down_pose :: hmat
  final_child_pose_upside_down :: hmat

subsection \<open>Placement composer (lines 685-720)\<close>

text \<open>
  The branch on \<^verbatim>\<open>'any_pose'\<close>: the parent is reset to its upright pose and the
  child's pose is corrected by the same transform.
\<close>

definition upright_correction ::
  "config \<Rightarrow> hmat \<Rightarrow> hmat \<Rightarrow> sim \<Rightarrow> error + (hmat \<times> sim)" where
  "upright_correction cfg start_parent_pose_mat final_child_pose_mat s =
     (if load_pose_type cfg = ''any_pose'' then
        let upright_parent_pose_mat =
              HMat (upright_parent_ori_mat cfg) (trans start_parent_pose_mat) in
        case linalg_inv start_parent_pose_mat of
          Inl e \<Rightarrow> Inl e
        | Inr start_parent_inv \<Rightarrow>
            let relative_upright_pose_mat = matmul upright_parent_pose_mat start_parent_inv;
                s' = reset_body s (parent_obj_id cfg)
                       (HMat (upright_parent_ori_mat cfg) (trans start_parent_pose_mat))
            in Inr (matmul relative_upright_pose_mat final_child_pose_mat, s')
      else Inr (final_child_pose_mat, s))"

text \<open>Returns \<open>final_parent_pose\<close>, \<open>final_child_pose_mat\<close> and the simulator.\<close>

definition compose_placement ::
  "config \<Rightarrow> hmat \<Rightarrow> hmat \<Rightarrow> hmat \<Rightarrow> sim \<Rightarrow> error + (hmat \<times> hmat \<times> sim)" where
  "compose_placement cfg start_parent_pose_mat start_child_pose_mat relative_trans s =
     (case upright_correction cfg start_parent_pose_mat
             (matmul relative_trans start_child_pose_mat) s of
        Inl e \<Rightarrow> Inl e
      | Inr (final_child_pose_mat, s1) \<Rightarrow>
          let final_parent_pose = get_body_state s1 (parent_obj_id cfg);
              s2 = reset_body s1 (child_obj_id cfg) final_child_pose_mat
          in Inr (final_parent_pose, final_child_pose_mat, s2))"

subsection \<open>First evaluation (lines 731-749)\<close>

text \<open>
  Dividing by a norm of zero gives nan in numpy, and a comparison with nan is false;
  that case is written out.
\<close>

definition bottle_upright_check :: "real \<Rightarrow> hmat \<Rightarrow> bool" where
  "bottle_upright_check thresh bottle_final_pose =
     (let bottle_body_y = column1 (rot bottle_final_pose);
          n = linalg_norm bottle_body_y
      in if n = 0 then False
         else
           let bottle_body_y = vscale (1 / n) bottle_body_y;
               angle_from_upright = angle_from_3d_vectors bottle_body_y (V3 0 0 1)
           in angle_from_upright < thresh)"

definition first_evaluation :: "config \<Rightarrow> 'c physics \<Rightarrow> sim \<Rightarrow> (string \<times> bool) list" where
  "first_evaluation cfg phys s =
     (let obj_surf_contacts = getContactPoints phys s (child_obj_id cfg) (parent_obj_id cfg);
          touching_surf = (length obj_surf_contacts > 0);
          success_crit_dict = AList.update ''touching_surf'' touching_surf []
      in if parent_class cfg = ''box_container'' \<and> child_class cfg = ''bottle'' then
           let bottle_final_pose = get_body_state s (child_obj_id cfg);
               bottle_upright =
                 bottle_upright_check (upright_ori_diff_thresh cfg) bottle_final_pose
           in AList.update ''bottle_upright'' bottle_upright success_crit_dict
         else success_crit_dict)"

subsection \<open>Upside-down test (lines 762-812)\<close>

definition upside_down_pose :: "mat3 \<Rightarrow> hmat \<Rightarrow> hmat" where
  "upside_down_pose upright_ori_mat start_parent_pose =
     (let upside_down_ori_mat = matmul3 (euler2rot (V3 pi 0 0)) upright_ori_mat in
      case trans start_parent_pose of
        V3 x y z \<Rightarrow> HMat upside_down_ori_mat (V3 x y (z + 0.15)))"

text \<open>The two conversions of lines 787-798, with the arguments as \<open>main\<close> names them.\<close>

definition upside_down_child_pose :: "hmat \<Rightarrow> hmat \<Rightarrow> hmat \<Rightarrow> error + hmat" where
  "upside_down_child_pose final_child_pose_mat start_parent_pose_mat upside_down_pose_mat =
     (case convert_reference_frame
             \<lparr>pose_source = final_child_pose_mat,
              pose_frame_target = start_parent_pose_mat,
              pose_frame_source = eye4\<rparr> of
        Inl e \<Rightarrow> Inl e
      | Inr final_child_pose_parent \<Rightarrow>
          convert_reference_frame
            \<lparr>pose_source = final_child_pose_parent,
             pose_frame_target = eye4,
             pose_frame_source = upside_down_pose_mat\<rparr>)"

text \<open>
  Lines 769-803: both bodies are reset to their start poses, the parent is reset to the
  upside-down pose, the child to the pose derived for it. Returns the two poses and the
  simulator.
\<close>

definition stress_test ::
  "config \<Rightarrow> hmat \<Rightarrow> hmat \<Rightarrow> hmat \<Rightarrow> sim \<Rightarrow> error + (hmat \<times> hmat \<times> sim)" where
  "stress_test cfg start_parent_pose start_child_pose final_child_pose_mat s =
     (let s1 = reset_body s (parent_obj_id cfg) start_parent_pose;
          s2 = reset_body s1 (child_obj_id cfg) start_child_pose;
          upside_down_pose_mat = upside_down_pose (upright_parent_ori_mat cfg) start_parent_pose;
          s3 = reset_body s2 (parent_obj_id cfg) upside_down_pose_mat
      in case upside_down_child_pose final_child_pose_mat start_parent_pose
                upside_down_pose_mat of
           Inl e \<Rightarrow> Inl e
         | Inr child_upside_down \<Rightarrow>
             Inr (upside_down_pose_mat, child_upside_down,
                  reset_body s3 (child_obj_id cfg) child_upside_down))"

subsection \<open>Aggregate, running success list and the saved demonstration\<close>

text \<open>\<^verbatim>\<open>np.all(np.asarray(list(success_crit_dict.values())))\<close>.\<close>

definition np_all :: "(string \<times> bool) list \<Rightarrow> bool" where
  "np_all d = list_all (\<lambda>b. b) (map snd d)"

text \<open>\<^verbatim>\<open>sum(place_success_list) / float(len(place_success_list))\<close>.\<close>

definition success_rate :: "bool list \<Rightarrow> real" where
  "success_rate l = real (length (filter (\<lambda>b. b) l)) / real (length l)"

text \<open>Lines 866-895: the file is written only under \<^verbatim>\<open>if place_success\<close>.\<close>

definition save_demo :: "nat \<Rightarrow> demo \<Rightarrow> (nat \<rightharpoonup> demo) \<Rightarrow> (nat \<rightharpoonup> demo)" where
  "save_demo iteration d files = (if success d then files(iteration \<mapsto> d) else files)"

subsection \<open>One iteration of the trial loop\<close>

definition trial ::
  "config \<Rightarrow> 'c physics \<Rightarrow> nat \<Rightarrow> trial_input \<Rightarrow> run_state \<Rightarrow>
   error + (trial_result \<times> run_state)" where
  "trial cfg phys iteration inp st =
     (case fuse (pcd_pts_parent inp) of
        Inl e \<Rightarrow> Inl e
      | Inr parent_pcd \<Rightarrow>
     (case fuse (pcd_pts_child inp) of
        Inl e \<Rightarrow> Inl e
      | Inr child_pcd \<Rightarrow>
     (let start_child_pose = get_body_state (sim_state st) (child_obj_id cfg);
          start_parent_pose = get_body_state (sim_state st) (parent_obj_id cfg);
          relative_trans = inferred_relative_trans inp
      in case compose_placement cfg start_parent_pose start_child_pose relative_trans
                (sim_state st) of
           Inl e \<Rightarrow> Inl e
         | Inr (final_parent, final_child_pose_mat, s1) \<Rightarrow>
     (let final_parent_pcd = parent_pcd;
          final_child_pcd = transform_pcd child_pcd relative_trans;
          s2 = settle_placed phys s1;
          crit = first_evaluation cfg phys s2
      in case stress_test cfg start_parent_pose start_child_pose final_child_pose_mat s2 of
           Inl e \<Rightarrow> Inl e
         | Inr (upside_down_pose_mat, child_upside_down, s3) \<Rightarrow>
     (let s4 = settle_upside_down phys s3;
          ud_obj_surf_contacts =
            getContactPoints phys s4 (parent_obj_id cfg) (child_obj_id cfg);
          ud_touching_surf = (length ud_obj_surf_contacts > 0);
          crit = AList.update ''fell_off_upside_down'' (\<not> ud_touching_surf) crit;
          ok = np_all crit;
          successes = place_success_list st @ [ok];
          aug_save_dict =
            \<lparr>success = ok,
             multi_obj_names = (parent_class cfg, child_class cfg),
             multi_obj_start_pcd = (parent_pcd, child_pcd),
             multi_obj_final_pcd = (final_parent_pcd, final_child_pcd),
             multi_obj_start_obj_pose = (start_parent_pose, start_child_pose),
             multi_obj_final_obj_pose = (final_parent, final_child_pose_mat)\<rparr>
      in Inr (\<lparr>success_crit_dict = crit,
               place_success = ok,
               current_success_rate = success_rate successes,
               final_parent_pose = final_parent,
               final_child_pose = final_child_pose_mat,
               parent_upside_down_pose = upside_down_pose_mat,
               final_child_pose_upside_down = child_upside_down\<rparr>,
              \<lparr>sim_state = s4,
               place_success_list = successes,
               demo_aug = save_demo iteration aug_save_dict (demo_aug st)\<rparr>))))))"

subsection \<open>A concrete trial\<close>

text \<open>
  A container standing rotated by a quarter turn about z at (0, 1, 0), loaded in any pose,
  and a bottle whose body y-axis points up, at (0, 1, 1/10). The proposed transform is
  the identity. The test physics leaves every pose as it is; \<open>bench_phys\<close> reports a
  contact as long as the container stands upright, \<open>sticky_phys\<close> always.
\<close>

definition bench_cfg :: config where
  "bench_cfg =
     \<lparr>parent_class = ''box_container'', child_class = ''bottle'',
      load_pose_type = ''any_pose'', upright_parent_ori_mat = eye3,
      upright_ori_diff_thresh = default_upright_ori_diff_thresh,
      parent_obj_id = 1, child_obj_id = 2\<rparr>"

definition bench_parent_pose :: hmat where
  "bench_parent_pose = HMat (M3 0 (-1) 0  1 0 0  0 0 1) (V3 0 1 0)"

definition bench_child_pose :: hmat where
  "bench_child_pose = HMat (M3 1 0 0  0 0 (-1)  0 1 0) (V3 0 1 (1/10))"

definition bench_sim :: sim where
  "bench_sim = (\<lambda>b. eye4)(1 := bench_parent_pose, 2 := bench_child_pose)"

definition bench_phys :: "unit physics" where
  "bench_phys =
     \<lparr>settle_placed = (\<lambda>s. s), settle_upside_down = (\<lambda>s. s),
      getContactPoints = (\<lambda>s a b. if rot (s 1) = eye3 then [()] else [])\<rparr>"

definition sticky_phys :: "unit physics" where
  "sticky_phys =
     \<lparr>settle_placed = (\<lambda>s. s), settle_upside_down = (\<lambda>s. s),
      getContactPoints = (\<lambda>s a b. [()])\<rparr>"

definition bench_input :: trial_input where
  "bench_input =
     \<lparr>pcd_pts_parent = [[V3 0 0 0], [V3 (1/10) 0 0]],
      pcd_pts_child = [[V3 0 0 (1/10)]],
      inferred_relative_trans = eye4\<rparr>"

text \<open>The same trial with the container seen by neither of the two cameras.\<close>

definition blind_input :: trial_input where
  "blind_input =
     \<lparr>pcd_pts_parent = [[], []],
      pcd_pts_child = [[V3 0 0 (1/10)]],
      inferred_relative_trans = eye4\<rparr>"

definition bench_state :: run_state where
  "bench_state = \<lparr>sim_state = bench_sim, place_success_list = [], demo_aug = Map.empty\<rparr>"

section \<open>Matrix algebra\<close>

lemma matmul3_assoc: "matmul3 (matmul3 A B) C = matmul3 A (matmul3 B C)"
  by (cases A; cases B; cases C) (simp add: algebra_simps)

lemma matmul3_eye3_left: "matmul3 eye3 A = A"
  by (cases A) (simp add: eye3_def)

lemma matmul3_eye3_right: "matmul3 A eye3 = A"
  by (cases A) (simp add: eye3_def)

lemma mat_vec_matmul3: "mat_vec (matmul3 A B) v = mat_vec A (mat_vec B v)"
  by (cases A; cases B; cases v) (simp add: algebra_simps)

lemma mat_vec_eye3: "mat_vec eye3 v = v"
  by (cases v) (simp add: eye3_def)

lemma mat_vec_vadd: "mat_vec A (vadd u v) = vadd (mat_vec A u) (mat_vec A v)"
  by (cases A; cases u; cases v) (simp add: algebra_simps)

lemma mat_vec_vneg: "mat_vec A (vneg v) = vneg (mat_vec A v)"
  by (cases A; cases v) (simp add: algebra_simps)

lemma vadd_assoc: "vadd (vadd u v) w = vadd u (vadd v w)"
  by (cases u; cases v; cases w) simp

lemma vadd_commute: "vadd u v = vadd v u"
  by (cases u; cases v) simp

lemma vadd_zero_left: "vadd (V3 0 0 0) v = v"
  by (cases v) simp

lemma vadd_zero_right: "vadd v (V3 0 0 0) = v"
  by (cases v) simp

lemma vadd_vneg: "vadd v (vneg v) = V3 0 0 0"
  by (cases v) simp

lemma vadd_vneg_left: "vadd (vneg v) v = V3 0 0 0"
  by (cases v) simp

lemma mat_vec_zero: "mat_vec A (V3 0 0 0) = V3 0 0 0"
  by (cases A) simp

lemma adjugate3_right: "matmul3 A (adjugate3 A) = scale3 (det3 A) eye3"
  by (cases A) (simp add: eye3_def algebra_simps)

lemma adjugate3_left: "matmul3 (adjugate3 A) A = scale3 (det3 A) eye3"
  by (cases A) (simp add: eye3_def algebra_simps)

lemma matmul3_scale3_right: "matmul3 A (scale3 k B) = scale3 k (matmul3 A B)"
  by (cases A; cases B) (simp add: algebra_simps)

lemma matmul3_scale3_left: "matmul3 (scale3 k A) B = scale3 k (matmul3 A B)"
  by (cases A; cases B) (simp add: algebra_simps)

lemma scale3_scale3: "scale3 k (scale3 l A) = scale3 (k * l) A"
  by (cases A) simp

lemma scale3_one: "scale3 1 A = A"
  by (cases A) simp

lemma inv3_right: "inv3 A = Some B \<Longrightarrow> matmul3 A B = eye3"
  by (auto simp: inv3_def matmul3_scale3_right adjugate3_right scale3_scale3 scale3_one
      split: if_splits)

lemma inv3_left: "inv3 A = Some B \<Longrightarrow> matmul3 B A = eye3"
  by (auto simp: inv3_def matmul3_scale3_left adjugate3_left scale3_scale3 scale3_one
      split: if_splits)

lemma det3_matmul3: "det3 (matmul3 A B) = det3 A * det3 B"
  by (cases A; cases B) (simp add: algebra_simps)

lemma det3_transpose3: "det3 (transpose3 A) = det3 A"
  by (cases A) (simp add: algebra_simps)

lemma det3_eye3: "det3 eye3 = 1"
  by (simp add: eye3_def)

lemma orthonormal_det3: "orthonormal r \<Longrightarrow> det3 r \<noteq> 0"
proof
  assume o: "orthonormal r" and z: "det3 r = 0"
  have "det3 (matmul3 r (transpose3 r)) = det3 r * det3 r"
    by (simp add: det3_matmul3 det3_transpose3)
  with o z show False
    by (simp add: orthonormal_def det3_eye3)
qed

text \<open>The inverse of an orthonormal block is its transpose.\<close>

lemma orthonormal_inv3: "orthonormal r \<Longrightarrow> inv3 r = Some (transpose3 r)"
proof -
  assume o: "orthonormal r"
  then obtain q where q: "inv3 r = Some q"
    by (auto simp: inv3_def dest: orthonormal_det3)
  have "q = matmul3 q (matmul3 r (transpose3 r))"
    using o by (simp add: orthonormal_def matmul3_eye3_right)
  also have "\<dots> = matmul3 (matmul3 q r) (transpose3 r)"
    by (simp add: matmul3_assoc)
  also have "\<dots> = transpose3 r"
    by (simp add: inv3_left [OF q] matmul3_eye3_left)
  finally show ?thesis
    using q by simp
qed

lemma orthonormal_transpose3_left: "orthonormal r \<Longrightarrow> matmul3 (transpose3 r) r = eye3"
  by (rule inv3_left) (rule orthonormal_inv3)


lemma transpose3_matmul3: "transpose3 (matmul3 A B) = matmul3 (transpose3 B) (transpose3 A)"
  by (cases A; cases B) (simp add: algebra_simps)

lemma orthonormal_matmul3: "orthonormal a \<Longrightarrow> orthonormal b \<Longrightarrow> orthonormal (matmul3 a b)"
proof -
  assume a: "orthonormal a" and b: "orthonormal b"
  have "matmul3 (matmul3 a b) (transpose3 (matmul3 a b))
      = matmul3 a (matmul3 (matmul3 b (transpose3 b)) (transpose3 a))"
    by (simp add: transpose3_matmul3 matmul3_assoc)
  also have "\<dots> = eye3"
    using a b by (simp add: orthonormal_def matmul3_eye3_left)
  finally show ?thesis
    by (simp add: orthonormal_def)
qed

lemma matmul_assoc: "matmul (matmul A B) C = matmul A (matmul B C)"
  by (cases A; cases B; cases C)
    (simp add: matmul3_assoc mat_vec_matmul3 mat_vec_vadd vadd_assoc)

lemma matmul_eye4_left: "matmul eye4 A = A"
  by (cases A) (simp add: eye4_def matmul3_eye3_left mat_vec_eye3 vadd_zero_right)

lemma matmul_eye4_right: "matmul A eye4 = A"
  by (cases A) (simp add: eye4_def matmul3_eye3_right mat_vec_zero vadd_zero_left)

lemma linalg_inv_right: "linalg_inv A = Inr B \<Longrightarrow> matmul A B = eye4"
  by (cases A)
    (auto simp: linalg_inv_def eye4_def inv3_right mat_vec_vneg vadd_vneg_left
      mat_vec_matmul3 [symmetric] mat_vec_eye3 split: option.splits)

lemma linalg_inv_left: "linalg_inv A = Inr B \<Longrightarrow> matmul B A = eye4"
  by (cases A)
    (auto simp: linalg_inv_def eye4_def inv3_left vadd_vneg split: option.splits)

lemma linalg_inv_valid:
  "valid_pose A \<Longrightarrow>
   linalg_inv A = Inr (HMat (transpose3 (rot A)) (vneg (mat_vec (transpose3 (rot A)) (trans A))))"
  by (simp add: linalg_inv_def valid_pose_def orthonormal_inv3)




text \<open>Cancellation of a pose against its inverse inside a product.\<close>

lemma matmul_inv_cancel_left: "linalg_inv A = Inr B \<Longrightarrow> matmul B (matmul A C) = C"
  by (simp add: matmul_assoc [symmetric] linalg_inv_left matmul_eye4_left)

lemma matmul_inv_cancel_right: "linalg_inv A = Inr B \<Longrightarrow> matmul A (matmul B C) = C"
  by (simp add: matmul_assoc [symmetric] linalg_inv_right matmul_eye4_left)

section \<open>Evaluation and case analysis of a trial\<close>

lemma euler2rot_pi: "euler2rot (V3 pi 0 0) = M3 1 0 0  0 (-1) 0  0 0 (-1)"
  by (simp add: euler2rot_def rot_x_def rot_y_def rot_z_def)

lemma linalg_norm_axis: "linalg_norm (V3 a 0 0) = \<bar>a\<bar>"
  by (simp add: linalg_norm_def)

lemma linalg_norm_axis_z: "linalg_norm (V3 0 0 c) = \<bar>c\<bar>"
  by (simp add: linalg_norm_def)

lemmas bench_defs = bench_cfg_def bench_parent_pose_def bench_child_pose_def bench_sim_def
  bench_phys_def sticky_phys_def bench_input_def blind_input_def bench_state_def

lemmas eval_defs = fuse_def np_mean_def linalg_norm_axis linalg_norm_axis_z
  compose_placement_def upright_correction_def linalg_inv_def inv3_def reset_body_def
  get_body_state_def first_evaluation_def bottle_upright_check_def angle_from_3d_vectors_def
  stress_test_def upside_down_pose_def euler2rot_pi upside_down_child_pose_def
  convert_reference_frame_def invert_def valid_pose_def orthonormal_def eye3_def eye4_def
  np_all_def save_demo_def success_rate_def transform_pcd_def
  default_upright_ori_diff_thresh_def

lemma trial_InrE:
  assumes "trial cfg phys iteration inp st = Inr (res, st')"
  obtains parent_pcd child_pcd fp fc s1 ud cud s3 where
    "fuse (pcd_pts_parent inp) = Inr parent_pcd"
    "fuse (pcd_pts_child inp) = Inr child_pcd"
    "compose_placement cfg (sim_state st (parent_obj_id cfg)) (sim_state st (child_obj_id cfg))
       (inferred_relative_trans inp) (sim_state st) = Inr (fp, fc, s1)"
    "stress_test cfg (sim_state st (parent_obj_id cfg)) (sim_state st (child_obj_id cfg)) fc
       (settle_placed phys s1) = Inr (ud, cud, s3)"
    "success_crit_dict res =
       AList.update ''fell_off_upside_down''
         (getContactPoints phys (settle_upside_down phys s3) (parent_obj_id cfg)
            (child_obj_id cfg) = [])
         (first_evaluation cfg phys (settle_placed phys s1))"
    "place_success res = np_all (success_crit_dict res)"
    "place_success_list st' = place_success_list st @ [place_success res]"
    "demo_aug st' =
       save_demo iteration
         \<lparr>success = place_success res,
          multi_obj_names = (parent_class cfg, child_class cfg),
          multi_obj_start_pcd = (parent_pcd, child_pcd),
          multi_obj_final_pcd = (parent_pcd, transform_pcd child_pcd (inferred_relative_trans inp)),
          multi_obj_start_obj_pose =
            (sim_state st (parent_obj_id cfg), sim_state st (child_obj_id cfg)),
          multi_obj_final_obj_pose = (fp, fc)\<rparr>
         (demo_aug st)"
    "sim_state st' = settle_upside_down phys s3"
    "parent_upside_down_pose res = ud"
    "final_child_pose_upside_down res = cud"
    "final_parent_pose res = fp"
    "final_child_pose res = fc"
  using assms
  unfolding trial_def get_body_state_def Let_def
  by (auto split: sum.splits prod.splits)

lemma np_all_iff: "np_all d \<longleftrightarrow> (\<forall>(k, b) \<in> set d. b)"
  by (auto simp: np_all_def list_all_iff)

lemma np_all_map_of: "np_all d \<Longrightarrow> map_of d k = Some b \<Longrightarrow> b"
  by (auto simp: np_all_iff dest: map_of_SomeD)

lemma trial_saves:
  assumes "trial cfg phys iteration inp st = Inr (res, st')"
  shows "\<exists>d. demo_aug st' = save_demo iteration d (demo_aug st) \<and> success d = place_success res"
  using assms by (elim trial_InrE) (rule exI, rule conjI, assumption, simp)

lemma compose_placement_child_pose:
  assumes "compose_placement cfg Sp Sc R s = Inr (fp, fc, s1)"
    and "compose_placement cfg Sp Sc R s' = Inr (fp', fc', s1')"
  shows "fc = fc'"
  using assms
  by (auto simp: compose_placement_def upright_correction_def Let_def
      split: if_splits sum.splits)

lemma stress_test_poses:
  assumes "stress_test cfg Sp Sc fc s = Inr (ud, cud, s3)"
    and "stress_test cfg Sp Sc fc s' = Inr (ud', cud', s3')"
  shows "ud = ud' \<and> cud = cud'"
  using assms by (auto simp: stress_test_def Let_def split: sum.splits)

lemma invert_valid: "valid_pose a \<Longrightarrow> invert a = linalg_inv a"
  by (simp add: invert_def)





lemma convert_reference_frame_InrD:
  assumes "convert_reference_frame f = Inr r"
  shows "valid_pose (pose_source f) \<and> valid_pose (pose_frame_source f)
       \<and> valid_pose (pose_frame_target f)"
  using assms
  by (auto simp: convert_reference_frame_def invert_def split: if_splits sum.splits)


lemma upside_down_child_pose_InrD:
  assumes "upside_down_child_pose Fc Sp UD = Inr cud"
  shows "valid_pose Fc \<and> valid_pose Sp \<and> valid_pose UD"
proof -
  from assms obtain cip where
    1: "convert_reference_frame
          \<lparr>pose_source = Fc, pose_frame_target = Sp, pose_frame_source = eye4\<rparr> = Inr cip"
    and 2: "convert_reference_frame
          \<lparr>pose_source = cip, pose_frame_target = eye4, pose_frame_source = UD\<rparr> = Inr cud"
    by (auto simp: upside_down_child_pose_def split: sum.splits)
  show ?thesis
    using convert_reference_frame_InrD [OF 1] convert_reference_frame_InrD [OF 2] by simp
qed

lemma stress_test_InrD:
  assumes "stress_test cfg Sp Sc fc s = Inr (ud, cud, s3)"
  shows "ud = upside_down_pose (upright_parent_ori_mat cfg) Sp"
    and "upside_down_child_pose fc Sp ud = Inr cud"
    and "s3 = reset_body
                (reset_body
                   (reset_body (reset_body s (parent_obj_id cfg) Sp) (child_obj_id cfg) Sc)
                   (parent_obj_id cfg) ud)
                (child_obj_id cfg) cud"
  using assms by (auto simp: stress_test_def Let_def split: sum.splits)


lemma half_turn_x:
  "M3 1 0 0  0 (-1) 0  0 0 (-1) = rot_x pi"
  "matmul3 (M3 1 0 0  0 (-1) 0  0 0 (-1)) (M3 1 0 0  0 (-1) 0  0 0 (-1)) = eye3"
  "M3 1 0 0  0 (-1) 0  0 0 (-1) \<noteq> eye3"
  "mat_vec (M3 1 0 0  0 (-1) 0  0 0 (-1)) (V3 1 0 0) = V3 1 0 0"
  "orthonormal (M3 1 0 0  0 (-1) 0  0 0 (-1))"
  by (simp_all add: rot_x_def eye3_def orthonormal_def)

lemma orthonormal_from_flipped:
  assumes "orthonormal (matmul3 (M3 1 0 0  0 (-1) 0  0 0 (-1)) U)"
  shows "orthonormal U"
proof -
  let ?F = "M3 1 0 0  0 (-1) 0  0 0 (-1)"
  have "orthonormal (matmul3 ?F (matmul3 ?F U))"
    using half_turn_x(5) assms by (rule orthonormal_matmul3)
  moreover have "matmul3 ?F (matmul3 ?F U) = matmul3 (matmul3 ?F ?F) U"
    by (simp only: matmul3_assoc)
  moreover have "matmul3 (matmul3 ?F ?F) U = U"
    by (simp only: half_turn_x(2) matmul3_eye3_left)
  ultimately show ?thesis by simp
qed

lemma body_half_turn:
  assumes "orthonormal U"
  shows "matmul3 (M3 1 0 0  0 (-1) 0  0 0 (-1)) U =
           matmul3 U (matmul3 (transpose3 U) (matmul3 (M3 1 0 0  0 (-1) 0  0 0 (-1)) U))"
    and "matmul3 (matmul3 (transpose3 U) (matmul3 (M3 1 0 0  0 (-1) 0  0 0 (-1)) U))
           (matmul3 (transpose3 U) (matmul3 (M3 1 0 0  0 (-1) 0  0 0 (-1)) U)) = eye3"
proof -
  let ?F = "M3 1 0 0  0 (-1) 0  0 0 (-1)"
  let ?T = "transpose3 U"
  have UT: "matmul3 U ?T = eye3"
    using assms by (simp add: orthonormal_def)
  have TU: "matmul3 ?T U = eye3"
    using assms by (rule orthonormal_transpose3_left)
  have "matmul3 U (matmul3 ?T (matmul3 ?F U)) = matmul3 (matmul3 U ?T) (matmul3 ?F U)"
    by (simp only: matmul3_assoc)
  then show "matmul3 ?F U = matmul3 U (matmul3 ?T (matmul3 ?F U))"
    by (simp only: UT matmul3_eye3_left)
  have "matmul3 (matmul3 ?T (matmul3 ?F U)) (matmul3 ?T (matmul3 ?F U)) =
        matmul3 ?T (matmul3 ?F (matmul3 (matmul3 U ?T) (matmul3 ?F U)))"
    by (simp only: matmul3_assoc)
  also have "\<dots> = matmul3 ?T (matmul3 (matmul3 ?F ?F) U)"
    by (simp only: UT matmul3_eye3_left matmul3_assoc)
  also have "\<dots> = eye3"
    by (simp only: half_turn_x(2) matmul3_eye3_left TU)
  finally show "matmul3 (matmul3 ?T (matmul3 ?F U)) (matmul3 ?T (matmul3 ?F U)) = eye3" .
qed

lemma upside_down_pose_parts:
  "rot (upside_down_pose U Sp) = matmul3 (M3 1 0 0  0 (-1) 0  0 0 (-1)) U"
  "trans (upside_down_pose U Sp) = vadd (trans Sp) (V3 0 0 0.15)"
  by (cases "trans Sp"; simp add: upside_down_pose_def euler2rot_pi)+

lemma upright_correction_any_pose:
  assumes "load_pose_type cfg = ''any_pose''" and "linalg_inv Sp = Inr Spi"
  shows "upright_correction cfg Sp Fc s =
           Inr (matmul (matmul (HMat (upright_parent_ori_mat cfg) (trans Sp)) Spi) Fc,
                reset_body s (parent_obj_id cfg) (HMat (upright_parent_ori_mat cfg) (trans Sp)))"
  using assms by (simp add: upright_correction_def)

lemma bench_trial:
  "\<exists>res st'. trial bench_cfg bench_phys 0 bench_input bench_state = Inr (res, st')
     \<and> place_success res
     \<and> success_crit_dict res =
         [(''touching_surf'', True), (''bottle_upright'', True), (''fell_off_upside_down'', True)]
     \<and> parent_upside_down_pose res = HMat (M3 1 0 0  0 (-1) 0  0 0 (-1)) (V3 0 1 (3/20))
     \<and> sim_state st' 1 = HMat (M3 1 0 0  0 (-1) 0  0 0 (-1)) (V3 0 1 (3/20))"
  by (simp add: trial_def bench_defs eval_defs Let_def)

lemma sticky_trial:
  "\<exists>res st'. trial bench_cfg sticky_phys 0 bench_input bench_state = Inr (res, st')
     \<and> \<not> place_success res"
  by (simp add: trial_def bench_defs eval_defs Let_def)

lemma blind_trial:
  "\<exists>res st'. trial bench_cfg bench_phys 0 blind_input bench_state = Inr (res, st')
     \<and> place_success res"
  by (simp add: trial_def bench_defs eval_defs Let_def)

lemma sticky_blind_trial:
  "\<exists>res st'. trial bench_cfg sticky_phys 7 blind_input
       (bench_state\<lparr>sim_state := bench_sim(3 := bench_child_pose)\<rparr>) = Inr (res, st')"
  by (simp add: trial_def bench_defs eval_defs Let_def)

lemma fuse_cameras: "obj_pcd_pts \<noteq> [] \<Longrightarrow> \<exists>pcd. fuse obj_pcd_pts = Inr pcd"
  by (cases "concat obj_pcd_pts = []")
    (simp_all add: fuse_def Let_def del: concat_eq_Nil_conv)

lemma fuse_replicate_Nil: "fuse (replicate (Suc n) []) = Inr []"
  by (simp add: fuse_def)

lemma dot_vscale_left: "dot (vscale k u) v = k * dot u v"
  by (cases u; cases v) (simp add: algebra_simps)

lemma dot_vscale_right: "dot u (vscale k v) = k * dot u v"
  by (cases u; cases v) (simp add: algebra_simps)

lemma linalg_norm_vscale: "linalg_norm (vscale k u) = \<bar>k\<bar> * linalg_norm u"
  by (simp add: linalg_norm_def dot_vscale_left dot_vscale_right real_sqrt_mult
      mult.assoc [symmetric])

lemma dot_self_nonneg: "0 \<le> dot u u"
  by (cases u) simp

lemma linalg_norm_nonneg: "0 \<le> linalg_norm u"
  by (simp add: linalg_norm_def dot_self_nonneg)

lemma bottle_upright_check_iff:
  "bottle_upright_check thresh pose \<longleftrightarrow>
     linalg_norm (column1 (rot pose)) \<noteq> 0
   \<and> angle_from_3d_vectors (column1 (rot pose)) (V3 0 0 1) < thresh"
proof (cases "linalg_norm (column1 (rot pose)) = 0")
  case True
  then show ?thesis by (simp add: bottle_upright_check_def)
next
  case False
  let ?y = "column1 (rot pose)"
  let ?n = "linalg_norm ?y"
  from False have n: "0 < ?n"
    using linalg_norm_nonneg [of ?y] by simp
  have "angle_from_3d_vectors (vscale (1 / ?n) ?y) (V3 0 0 1) =
        angle_from_3d_vectors ?y (V3 0 0 1)"
    using n by (simp add: angle_from_3d_vectors_def dot_vscale_left linalg_norm_vscale
        linalg_norm_axis_z)
  with False show ?thesis
    by (simp add: bottle_upright_check_def Let_def)
qed

lemma first_evaluation_keys:
  "map fst (first_evaluation cfg phys s) =
     (if parent_class cfg = ''box_container'' \<and> child_class cfg = ''bottle''
      then [''touching_surf'', ''bottle_upright''] else [''touching_surf''])"
  by (simp add: first_evaluation_def Let_def)

lemma first_evaluation_bottle:
  "parent_class cfg = ''box_container'' \<and> child_class cfg = ''bottle'' \<Longrightarrow>
   map_of (first_evaluation cfg phys s) ''bottle_upright'' =
     Some (bottle_upright_check (upright_ori_diff_thresh cfg) (s (child_obj_id cfg)))"
  by (simp add: first_evaluation_def Let_def get_body_state_def)

section \<open>The claims\<close>



text \<open>
  The formula as section 3 prints it does not do this. At the first call of \<open>main\<close>,
  for a parent at (0, 1, 0) and a child at the origin, both with the identity
  orientation, the child's pose relative to the parent is at (0, -1, 0), which is what
  \<open>convert_reference_frame\<close> returns; the printed formula returns the pose at
  (0, 1, 0).
\<close>

lemma printed_formula_differs:
  "convert_reference_frame
     \<lparr>pose_source = eye4, pose_frame_target = HMat eye3 (V3 0 1 0),
      pose_frame_source = eye4\<rparr> = Inr (HMat eye3 (V3 0 (-1) 0))
   \<and> convert_reference_frame_as_printed
     \<lparr>pose_source = eye4, pose_frame_target = HMat eye3 (V3 0 1 0),
      pose_frame_source = eye4\<rparr> = Inr (HMat eye3 (V3 0 1 0))"
  by (simp add: convert_reference_frame_def convert_reference_frame_as_printed_def invert_def
      valid_pose_def orthonormal_def linalg_inv_def inv3_def eye4_def eye3_def)

text \<open>
  C2. With the load pose type \<^verbatim>\<open>'any_pose'\<close>, a valid start pose \<open>Sp\<close> of the parent
  and an orthonormal upright orientation, the composer returns the upright pose \<open>Up\<close>
  (the position of \<open>Sp\<close>, the upright orientation) as the parent's final pose and
  \<open>(Up \<circ> Sp\<inverse>) \<circ> (R \<circ> Sc)\<close> as the child's, and the child's pose relative to the
  parent is the same before and after the correction:
  \<open>Up\<inverse> \<circ> ((Up \<circ> Sp\<inverse>) \<circ> (R \<circ> Sc)) = Sp\<inverse> \<circ> (R \<circ> Sc)\<close>.
\<close>

theorem upright_correction_keeps_relation:
  assumes "load_pose_type cfg = ''any_pose''"
    and "valid_pose Sp"
    and "orthonormal (upright_parent_ori_mat cfg)"
  shows "\<exists>Spi Upi s'.
           linalg_inv Sp = Inr Spi
         \<and> linalg_inv (HMat (upright_parent_ori_mat cfg) (trans Sp)) = Inr Upi
         \<and> compose_placement cfg Sp Sc R s =
             Inr (HMat (upright_parent_ori_mat cfg) (trans Sp),
                  matmul (matmul (HMat (upright_parent_ori_mat cfg) (trans Sp)) Spi) (matmul R Sc),
                  s')
         \<and> matmul Upi
             (matmul (matmul (HMat (upright_parent_ori_mat cfg) (trans Sp)) Spi) (matmul R Sc)) =
           matmul Spi (matmul R Sc)"
proof -
  let ?Up = "HMat (upright_parent_ori_mat cfg) (trans Sp)"
  obtain Spi where Spi: "linalg_inv Sp = Inr Spi"
    using assms(2) by (simp add: linalg_inv_valid)
  have "valid_pose ?Up"
    using assms(3) by (simp add: valid_pose_def)
  then obtain Upi where Upi: "linalg_inv ?Up = Inr Upi"
    by (simp add: linalg_inv_valid)
  have "matmul Upi (matmul (matmul ?Up Spi) (matmul R Sc)) = matmul Spi (matmul R Sc)"
    by (simp add: matmul_assoc matmul_inv_cancel_left [OF Upi])
  moreover have "compose_placement cfg Sp Sc R s =
      Inr (?Up, matmul (matmul ?Up Spi) (matmul R Sc),
           reset_body (reset_body s (parent_obj_id cfg) ?Up) (child_obj_id cfg)
             (matmul (matmul ?Up Spi) (matmul R Sc)))"
    by (simp add: compose_placement_def upright_correction_any_pose [OF assms(1) Spi]
        get_body_state_def reset_body_def)
  ultimately show ?thesis
    using Spi Upi by simp
qed

theorem upright_correction_keeps_relation_witness:
  "load_pose_type bench_cfg = ''any_pose''
   \<and> valid_pose bench_parent_pose
   \<and> orthonormal (upright_parent_ori_mat bench_cfg)
   \<and> (\<exists>s'. compose_placement bench_cfg bench_parent_pose bench_child_pose eye4 bench_sim =
         Inr (HMat eye3 (V3 0 1 0), HMat (M3 0 0 (-1)  (-1) 0 0  0 1 0) (V3 0 1 (1/10)), s'))"
proof -
  have h: "load_pose_type bench_cfg = ''any_pose''" "valid_pose bench_parent_pose"
    "orthonormal (upright_parent_ori_mat bench_cfg)"
    by (simp_all add: bench_defs valid_pose_def orthonormal_def eye3_def)
  show ?thesis
    using h upright_correction_keeps_relation
      [OF h, of bench_child_pose eye4 bench_sim]
    by (auto simp: bench_defs linalg_inv_def inv3_def eye3_def eye4_def)
qed

text \<open>
  C3. In a trial that runs to its end the aggregate is the conjunction of all values of
  the criteria dictionary, it is appended to the running success list, and the
  demonstration file of this iteration is written if and only if the aggregate is true:
  on success the files are the old ones with this iteration's record added, otherwise
  they are unchanged.
\<close>

theorem aggregate_and_persistence:
  assumes "trial cfg phys iteration inp st = Inr (res, st')"
  shows "place_success res = (\<forall>(k, b) \<in> set (success_crit_dict res). b)
       \<and> place_success_list st' = place_success_list st @ [place_success res]
       \<and> (place_success res \<longrightarrow>
            (\<exists>d. demo_aug st' = (demo_aug st)(iteration \<mapsto> d) \<and> success d))
       \<and> (\<not> place_success res \<longrightarrow> demo_aug st' = demo_aug st)"
proof -
  from assms have a: "place_success res = (\<forall>(k, b) \<in> set (success_crit_dict res). b)"
    by (elim trial_InrE) (simp only: np_all_iff)
  from assms have l: "place_success_list st' = place_success_list st @ [place_success res]"
    by (elim trial_InrE)
  from trial_saves [OF assms] obtain d where
    d: "demo_aug st' = save_demo iteration d (demo_aug st)" "success d = place_success res"
    by blast
  have "place_success res \<longrightarrow> (\<exists>d. demo_aug st' = (demo_aug st)(iteration \<mapsto> d) \<and> success d)"
    using d by (auto simp: save_demo_def)
  moreover have "\<not> place_success res \<longrightarrow> demo_aug st' = demo_aug st"
    using d by (simp add: save_demo_def)
  ultimately show ?thesis
    using a l by blast
qed

theorem aggregate_and_persistence_witness:
  "(\<exists>res st'. trial bench_cfg bench_phys 0 bench_input bench_state = Inr (res, st')
      \<and> place_success res \<and> place_success_list st' = [True]
      \<and> (\<exists>d. demo_aug st' = [0 \<mapsto> d] \<and> success d))
   \<and> (\<exists>res st'. trial bench_cfg sticky_phys 0 bench_input bench_state = Inr (res, st')
      \<and> \<not> place_success res \<and> place_success_list st' = [False]
      \<and> demo_aug st' = Map.empty)"
proof -
  obtain res st' where t: "trial bench_cfg bench_phys 0 bench_input bench_state = Inr (res, st')"
    and p: "place_success res"
    using bench_trial by blast
  obtain res2 st2 where
    t2: "trial bench_cfg sticky_phys 0 bench_input bench_state = Inr (res2, st2)"
    and p2: "\<not> place_success res2"
    using sticky_trial by blast
  show ?thesis
    using aggregate_and_persistence [OF t] aggregate_and_persistence [OF t2] t p t2 p2
    by (simp add: bench_state_def)
qed

text \<open>
  C4, as the code has it. The fused cloud of an object seen by at least one camera is the
  concatenation of the cameras' points, in order, restricted to the points whose distance
  to the mean of all of them is strictly below 0.2; the radius is the literal of line 615.
  A point at distance exactly 0.2 is dropped. In particular, when every point lies within
  0.05 of that mean or at distance 5 from it, the result is exactly the points within
  0.05.
\<close>

theorem fuse_keeps_strict_inliers:
  assumes "obj_pcd_pts \<noteq> []"
  shows "fuse obj_pcd_pts =
           Inr (filter (\<lambda>q. linalg_norm (vsub q (np_mean (concat obj_pcd_pts))) < 0.2)
                  (concat obj_pcd_pts))
       \<and> ((\<forall>q \<in> set (concat obj_pcd_pts).
              linalg_norm (vsub q (np_mean (concat obj_pcd_pts))) \<le> 0.05
            \<or> linalg_norm (vsub q (np_mean (concat obj_pcd_pts))) = 5)
          \<longrightarrow> fuse obj_pcd_pts =
                Inr (filter (\<lambda>q. linalg_norm (vsub q (np_mean (concat obj_pcd_pts))) \<le> 0.05)
                       (concat obj_pcd_pts)))"
proof -
  let ?pts = "concat obj_pcd_pts"
  let ?d = "\<lambda>q. linalg_norm (vsub q (np_mean ?pts))"
  have main: "fuse obj_pcd_pts = Inr (filter (\<lambda>q. ?d q < 0.2) ?pts)"
  proof (cases "?pts = []")
    case True
    with assms show ?thesis by (simp add: fuse_def del: concat_eq_Nil_conv)
  next
    case False
    with assms show ?thesis by (simp add: fuse_def Let_def del: concat_eq_Nil_conv)
  qed
  have "filter (\<lambda>q. ?d q < 0.2) ?pts = filter (\<lambda>q. ?d q \<le> 0.05) ?pts"
    if "\<forall>q \<in> set ?pts. ?d q \<le> 0.05 \<or> ?d q = 5"
    using that by (intro filter_cong refl) fastforce
  with main show ?thesis by simp
qed

theorem fuse_keeps_strict_inliers_witness:
  "fuse [[V3 0 0 0, V3 5 0 0], [V3 (-5) 0 0, V3 (1/20) 0 0, V3 (-1/20) 0 0]] =
     Inr [V3 0 0 0, V3 (1/20) 0 0, V3 (-1/20) 0 0]"
  using fuse_keeps_strict_inliers
    [of "[[V3 0 0 0, V3 5 0 0], [V3 (-5) 0 0, V3 (1/20) 0 0, V3 (-1/20) 0 0]]"]
  by (simp add: np_mean_def linalg_norm_axis)

text \<open>
  C4 as stated fails on the boundary: of two points 0.4 apart each is at distance exactly
  0.2 from their mean, which does not exceed the radius, and fusion returns neither.
\<close>

theorem fuse_boundary_counterexample:
  "fuse [[V3 0 0 0, V3 (2/5) 0 0]] = Inr []
   \<and> linalg_norm (vsub (V3 0 0 0) (np_mean [V3 0 0 0, V3 (2/5) 0 0])) \<le> 0.2
   \<and> linalg_norm (vsub (V3 (2/5) 0 0) (np_mean [V3 0 0 0, V3 (2/5) 0 0])) \<le> 0.2"
  by (simp add: fuse_def np_mean_def linalg_norm_axis)

text \<open>
  C5, as the code has it. There is no \<^verbatim>\<open>EmptyObservationError\<close>: the fused cloud of an
  object that none of the (at least one) cameras sees is the empty cloud, and the trial is
  not ended at fusion. A trial with an unseen parent or child that runs to its end appends
  its aggregate to the running success list, which grows by one. Fusion fails only when
  there is no camera at all, and then the iteration ends in \<^verbatim>\<open>ValueError\<close>, before a
  transform is composed.
\<close>

theorem unseen_object_not_an_error:
  "fuse (replicate (Suc n) []) = Inr []
   \<and> ((pcd_pts_parent inp = replicate (Suc n) [] \<or> pcd_pts_child inp = replicate (Suc n) [])
       \<and> trial cfg phys iteration inp st = Inr (res, st')
      \<longrightarrow> place_success_list st' = place_success_list st @ [place_success res]
        \<and> length (place_success_list st') = Suc (length (place_success_list st)))
   \<and> (pcd_pts_parent inp = [] \<or> pcd_pts_child inp = []
      \<longrightarrow> trial cfg phys iteration inp st = Inl ValueError)"
proof -
  have 1: "fuse (replicate (Suc n) []) = Inr []"
    by (rule fuse_replicate_Nil)
  have 2: "place_success_list st' = place_success_list st @ [place_success res]
        \<and> length (place_success_list st') = Suc (length (place_success_list st))"
    if "trial cfg phys iteration inp st = Inr (res, st')"
    using that by (elim trial_InrE) simp
  have 3: "trial cfg phys iteration inp st = Inl ValueError"
    if "pcd_pts_parent inp = [] \<or> pcd_pts_child inp = []"
  proof (cases "pcd_pts_parent inp = []")
    case True
    then show ?thesis by (simp add: trial_def fuse_def)
  next
    case False
    with that have c: "pcd_pts_child inp = []" by simp
    from False obtain parent_pcd where "fuse (pcd_pts_parent inp) = Inr parent_pcd"
      using fuse_cameras by blast
    with c show ?thesis by (simp add: trial_def fuse_def)
  qed
  show ?thesis
    using 1 2 3 by blast
qed

theorem unseen_object_not_an_error_witness:
  "pcd_pts_parent blind_input = replicate (Suc (Suc 0)) []
   \<and> (\<exists>res st'. trial bench_cfg bench_phys 0 blind_input bench_state = Inr (res, st')
        \<and> length (place_success_list st') = Suc (length (place_success_list bench_state)))
   \<and> trial bench_cfg bench_phys 0 (blind_input\<lparr>pcd_pts_parent := []\<rparr>) bench_state =
       Inl ValueError"
proof -
  have h: "pcd_pts_parent blind_input = replicate (Suc (Suc 0)) []"
    by (simp add: blind_input_def)
  obtain res st' where t: "trial bench_cfg bench_phys 0 blind_input bench_state = Inr (res, st')"
    using blind_trial by blast
  have "length (place_success_list st') = Suc (length (place_success_list bench_state))"
    using unseen_object_not_an_error
      [of "Suc 0" blind_input bench_cfg bench_phys 0 bench_state res st'] h t
    by blast
  moreover have "trial bench_cfg bench_phys 0 (blind_input\<lparr>pcd_pts_parent := []\<rparr>) bench_state =
       Inl ValueError"
    using unseen_object_not_an_error
      [of 0 "blind_input\<lparr>pcd_pts_parent := []\<rparr>" bench_cfg bench_phys 0 bench_state]
    by simp
  ultimately show ?thesis
    using h t by blast
qed

text \<open>
  C5 as stated fails at fusion: for an object that neither of two cameras sees, the
  fused cloud is the empty cloud and no error is raised.
\<close>

theorem empty_observation_counterexample:
  "fuse [[], []] = Inr []"
  by (simp add: fuse_def)

text \<open>
  C6. In every trial that runs to its end, the upside-down pose of the parent has as
  orientation the half turn about x (the matrix with diagonal 1, -1, -1, which is
  \<open>rot_x pi\<close>, squares to the identity, is not the identity and fixes the x-axis) applied
  to the upright orientation \<open>U\<close> of the parent's class; this is \<open>U\<close> followed, in the
  body frame, by \<open>U\<^sup>T F U\<close>, a half turn about the axis of the body that \<open>U\<close> takes to
  x. Its position is the parent's position at the start of the trial raised by 0.15 in z.
  When the second settling starts, the simulator holds the parent at this pose.
\<close>

theorem upside_down_parent_pose_of_trial:
  assumes "trial cfg phys iteration inp st = Inr (res, st')"
  shows "rot (parent_upside_down_pose res) =
           matmul3 (M3 1 0 0  0 (-1) 0  0 0 (-1)) (upright_parent_ori_mat cfg)
       \<and> M3 1 0 0  0 (-1) 0  0 0 (-1) = rot_x pi
       \<and> matmul3 (M3 1 0 0  0 (-1) 0  0 0 (-1)) (M3 1 0 0  0 (-1) 0  0 0 (-1)) = eye3
       \<and> M3 1 0 0  0 (-1) 0  0 0 (-1) \<noteq> eye3
       \<and> mat_vec (M3 1 0 0  0 (-1) 0  0 0 (-1)) (V3 1 0 0) = V3 1 0 0
       \<and> (\<exists>G. rot (parent_upside_down_pose res) = matmul3 (upright_parent_ori_mat cfg) G
            \<and> G = matmul3 (transpose3 (upright_parent_ori_mat cfg))
                    (matmul3 (M3 1 0 0  0 (-1) 0  0 0 (-1)) (upright_parent_ori_mat cfg))
            \<and> matmul3 G G = eye3)
       \<and> trans (parent_upside_down_pose res) =
           vadd (trans (sim_state st (parent_obj_id cfg))) (V3 0 0 0.15)
       \<and> (parent_obj_id cfg \<noteq> child_obj_id cfg \<longrightarrow>
            (\<exists>s3. sim_state st' = settle_upside_down phys s3
                 \<and> get_body_state s3 (parent_obj_id cfg) = parent_upside_down_pose res))"
proof -
  let ?Sp = "sim_state st (parent_obj_id cfg)"
  let ?U = "upright_parent_ori_mat cfg"
  from assms obtain fc ud cud s1 s3 where
    st: "stress_test cfg ?Sp (sim_state st (child_obj_id cfg)) fc (settle_placed phys s1) =
           Inr (ud, cud, s3)"
    and r: "parent_upside_down_pose res = ud"
    and s: "sim_state st' = settle_upside_down phys s3"
    by (elim trial_InrE) blast
  have ud: "ud = upside_down_pose ?U ?Sp"
    using st by (rule stress_test_InrD)
  have rot: "rot ud = matmul3 (M3 1 0 0  0 (-1) 0  0 0 (-1)) ?U"
    and tr: "trans ud = vadd (trans ?Sp) (V3 0 0 0.15)"
    by (simp_all add: ud upside_down_pose_parts)
  have "upside_down_child_pose fc ?Sp ud = Inr cud"
    using st by (rule stress_test_InrD)
  then have "valid_pose ud"
    using upside_down_child_pose_InrD by blast
  then have U: "orthonormal ?U"
    by (simp add: valid_pose_def rot orthonormal_from_flipped)
  have A: "rot (parent_upside_down_pose res) = matmul3 (M3 1 0 0  0 (-1) 0  0 0 (-1)) ?U"
    using rot r by simp
  have B: "\<exists>G. rot (parent_upside_down_pose res) = matmul3 ?U G
            \<and> G = matmul3 (transpose3 ?U) (matmul3 (M3 1 0 0  0 (-1) 0  0 0 (-1)) ?U)
            \<and> matmul3 G G = eye3"
    using body_half_turn [OF U] A by simp
  have C: "trans (parent_upside_down_pose res) = vadd (trans ?Sp) (V3 0 0 0.15)"
    using tr r by simp
  have "get_body_state s3 (parent_obj_id cfg) = ud"
    if "parent_obj_id cfg \<noteq> child_obj_id cfg"
    using that stress_test_InrD(3) [OF st]
    by (simp add: get_body_state_def reset_body_def)
  then have D: "parent_obj_id cfg \<noteq> child_obj_id cfg \<longrightarrow>
            (\<exists>s3. sim_state st' = settle_upside_down phys s3
                 \<and> get_body_state s3 (parent_obj_id cfg) = parent_upside_down_pose res)"
    using s r by auto
  show ?thesis
    by (rule conjI [OF A conjI [OF half_turn_x(1) conjI [OF half_turn_x(2)
          conjI [OF half_turn_x(3) conjI [OF half_turn_x(4) conjI [OF B conjI [OF C D]]]]]]])
qed

theorem upside_down_parent_pose_of_trial_witness:
  "\<exists>res st'. trial bench_cfg bench_phys 0 bench_input bench_state = Inr (res, st')
     \<and> rot bench_parent_pose = M3 0 (-1) 0  1 0 0  0 0 1
     \<and> upright_parent_ori_mat bench_cfg = eye3
     \<and> parent_upside_down_pose res = HMat (M3 1 0 0  0 (-1) 0  0 0 (-1)) (V3 0 1 (3/20))"
proof -
  obtain res st' where t: "trial bench_cfg bench_phys 0 bench_input bench_state = Inr (res, st')"
    using bench_trial by blast
  have "parent_upside_down_pose res = HMat (M3 1 0 0  0 (-1) 0  0 0 (-1)) (V3 0 1 (3/20))"
    using upside_down_parent_pose_of_trial [OF t]
    by (cases "parent_upside_down_pose res") (simp add: bench_defs eye3_def)
  then show ?thesis
    using t by (auto simp: bench_defs)
qed

text \<open>
  C7. In a trial that runs to its end, \<^verbatim>\<open>fell_off_upside_down\<close> is true exactly when
  the contact query after the upside-down settling returns no contact; with a contact it
  is false, and so is the aggregate.
\<close>

theorem fell_off_upside_down_criterion:
  assumes "trial cfg phys iteration inp st = Inr (res, st')"
  shows "map_of (success_crit_dict res) ''fell_off_upside_down'' =
           Some (getContactPoints phys (sim_state st') (parent_obj_id cfg) (child_obj_id cfg) = [])
       \<and> (getContactPoints phys (sim_state st') (parent_obj_id cfg) (child_obj_id cfg) \<noteq> []
            \<longrightarrow> map_of (success_crit_dict res) ''fell_off_upside_down'' = Some False
              \<and> \<not> place_success res)"
proof -
  from assms have m: "map_of (success_crit_dict res) ''fell_off_upside_down'' =
      Some (getContactPoints phys (sim_state st') (parent_obj_id cfg) (child_obj_id cfg) = [])"
    by (elim trial_InrE) (simp add: update_conv')
  from assms have p: "place_success res = np_all (success_crit_dict res)"
    by (elim trial_InrE)
  show ?thesis
    using m p np_all_map_of [of "success_crit_dict res" "''fell_off_upside_down''" False]
    by auto
qed

theorem fell_off_upside_down_criterion_witness:
  "\<exists>res st'. trial bench_cfg sticky_phys 0 bench_input bench_state = Inr (res, st')
     \<and> getContactPoints sticky_phys (sim_state st') (parent_obj_id bench_cfg)
         (child_obj_id bench_cfg) = [()]
     \<and> map_of (success_crit_dict res) ''fell_off_upside_down'' = Some False
     \<and> \<not> place_success res"
proof -
  obtain res st' where
    t: "trial bench_cfg sticky_phys 0 bench_input bench_state = Inr (res, st')"
    using sticky_trial by blast
  show ?thesis
    using fell_off_upside_down_criterion [OF t] t
    by (simp add: sticky_phys_def)
qed

text \<open>
  C8. The record written by a successful trial holds, as final clouds, the parent's fused
  cloud unchanged and the child's fused cloud with every point \<open>q\<close> replaced by
  \<open>r q + t\<close>, where \<open>r\<close> and \<open>t\<close> are the rotation and translation of the proposed
  relative transform.
\<close>

theorem saved_point_clouds:
  assumes "trial cfg phys iteration inp st = Inr (res, st')" and "place_success res"
  shows "\<exists>d parent_pcd child_pcd.
           demo_aug st' iteration = Some d
         \<and> fuse (pcd_pts_parent inp) = Inr parent_pcd
         \<and> fuse (pcd_pts_child inp) = Inr child_pcd
         \<and> multi_obj_start_pcd d = (parent_pcd, child_pcd)
         \<and> multi_obj_final_pcd d =
             (parent_pcd,
              map (\<lambda>q. vadd (mat_vec (rot (inferred_relative_trans inp)) q)
                          (trans (inferred_relative_trans inp))) child_pcd)"
  using assms by (elim trial_InrE) (simp add: save_demo_def transform_pcd_def)

theorem saved_point_clouds_witness:
  "\<exists>res st' d. trial bench_cfg bench_phys 0 bench_input bench_state = Inr (res, st')
     \<and> place_success res
     \<and> demo_aug st' 0 = Some d
     \<and> multi_obj_start_pcd d = ([V3 0 0 0, V3 (1/10) 0 0], [V3 0 0 (1/10)])
     \<and> multi_obj_final_pcd d = ([V3 0 0 0, V3 (1/10) 0 0], [V3 0 0 (1/10)])"
proof -
  obtain res st' where t: "trial bench_cfg bench_phys 0 bench_input bench_state = Inr (res, st')"
    and p: "place_success res"
    using bench_trial by blast
  have f: "fuse (pcd_pts_parent bench_input) = Inr [V3 0 0 0, V3 (1/10) 0 0]"
    "fuse (pcd_pts_child bench_input) = Inr [V3 0 0 (1/10)]"
    by (simp_all add: bench_input_def fuse_def np_mean_def linalg_norm_axis linalg_norm_axis_z)
  show ?thesis
    using saved_point_clouds [OF t p] t p f
    by (auto simp: bench_input_def eye4_def eye3_def)
qed

text \<open>
  C9. Two trials under the same configuration whose simulators hold the same start poses
  of parent and child and that are given the same relative transform derive the same
  upside-down parent pose and the same upside-down child pose, whatever else differs: the
  rest of the simulator, the physics, the camera points, the iteration.
\<close>

theorem upside_down_derivation_deterministic:
  assumes "trial cfg phys iteration inp st = Inr (res, st1)"
    and "trial cfg phys' iteration' inp' st' = Inr (res', st1')"
    and "sim_state st (parent_obj_id cfg) = sim_state st' (parent_obj_id cfg)"
    and "sim_state st (child_obj_id cfg) = sim_state st' (child_obj_id cfg)"
    and "inferred_relative_trans inp = inferred_relative_trans inp'"
  shows "parent_upside_down_pose res = parent_upside_down_pose res'
       \<and> final_child_pose_upside_down res = final_child_pose_upside_down res'"
proof -
  from assms(1) obtain fp fc s1 ud cud s3 where
    c: "compose_placement cfg (sim_state st (parent_obj_id cfg)) (sim_state st (child_obj_id cfg))
          (inferred_relative_trans inp) (sim_state st) = Inr (fp, fc, s1)"
    and t: "stress_test cfg (sim_state st (parent_obj_id cfg)) (sim_state st (child_obj_id cfg)) fc
          (settle_placed phys s1) = Inr (ud, cud, s3)"
    and r: "parent_upside_down_pose res = ud" "final_child_pose_upside_down res = cud"
    by (elim trial_InrE) blast
  from assms(2) obtain fp' fc' s1' ud' cud' s3' where
    c': "compose_placement cfg (sim_state st' (parent_obj_id cfg))
          (sim_state st' (child_obj_id cfg))
          (inferred_relative_trans inp') (sim_state st') = Inr (fp', fc', s1')"
    and t': "stress_test cfg (sim_state st' (parent_obj_id cfg))
          (sim_state st' (child_obj_id cfg)) fc'
          (settle_placed phys' s1') = Inr (ud', cud', s3')"
    and r': "parent_upside_down_pose res' = ud'" "final_child_pose_upside_down res' = cud'"
    by (elim trial_InrE) blast
  have "fc = fc'"
    using c c' assms(3-5) by (auto dest: compose_placement_child_pose)
  then have "ud = ud' \<and> cud = cud'"
    using t t' assms(3,4) by (auto dest: stress_test_poses)
  then show ?thesis
    using r r' by simp
qed

theorem upside_down_derivation_deterministic_witness:
  "\<exists>res st1 res' st1'.
     trial bench_cfg bench_phys 0 bench_input bench_state = Inr (res, st1)
   \<and> trial bench_cfg sticky_phys 7 blind_input
       (bench_state\<lparr>sim_state := bench_sim(3 := bench_child_pose)\<rparr>) = Inr (res', st1')
   \<and> parent_upside_down_pose res = parent_upside_down_pose res'
   \<and> final_child_pose_upside_down res = final_child_pose_upside_down res'"
proof -
  obtain res st1 where t: "trial bench_cfg bench_phys 0 bench_input bench_state = Inr (res, st1)"
    using bench_trial by blast
  obtain res' st1' where
    t': "trial bench_cfg sticky_phys 7 blind_input
           (bench_state\<lparr>sim_state := bench_sim(3 := bench_child_pose)\<rparr>) = Inr (res', st1')"
    using sticky_blind_trial by blast
  have h: "sim_state bench_state (parent_obj_id bench_cfg) =
           sim_state (bench_state\<lparr>sim_state := bench_sim(3 := bench_child_pose)\<rparr>)
             (parent_obj_id bench_cfg)"
    "sim_state bench_state (child_obj_id bench_cfg) =
     sim_state (bench_state\<lparr>sim_state := bench_sim(3 := bench_child_pose)\<rparr>)
       (child_obj_id bench_cfg)"
    "inferred_relative_trans bench_input = inferred_relative_trans blind_input"
    by (simp_all add: bench_defs)
  show ?thesis
    using upside_down_derivation_deterministic [OF t t' h] t t' by blast
qed

text \<open>
  C10. In a trial that runs to its end the keys of the criteria dictionary are
  \<^verbatim>\<open>touching_surf\<close> and \<^verbatim>\<open>fell_off_upside_down\<close>, with \<^verbatim>\<open>bottle_upright\<close>
  between them exactly for the classes \<^verbatim>\<open>box_container\<close> and \<^verbatim>\<open>bottle\<close>; and
  \<^verbatim>\<open>bottle_upright\<close> is true exactly when the angle between the y-axis of the child's
  settled pose and world up is strictly below \<open>upright_ori_diff_thresh\<close>, whose default
  \<open>default_upright_ori_diff_thresh\<close> is 15 degrees.
\<close>

theorem success_criteria_keys:
  assumes "trial cfg phys iteration inp st = Inr (res, st')"
  shows "map fst (success_crit_dict res) =
           (if parent_class cfg = ''box_container'' \<and> child_class cfg = ''bottle''
            then [''touching_surf'', ''bottle_upright'', ''fell_off_upside_down'']
            else [''touching_surf'', ''fell_off_upside_down''])
       \<and> (parent_class cfg = ''box_container'' \<and> child_class cfg = ''bottle'' \<longrightarrow>
            (\<exists>fp fc s1 y.
               compose_placement cfg (sim_state st (parent_obj_id cfg))
                 (sim_state st (child_obj_id cfg)) (inferred_relative_trans inp)
                 (sim_state st) = Inr (fp, fc, s1)
             \<and> y = column1 (rot (settle_placed phys s1 (child_obj_id cfg)))
             \<and> map_of (success_crit_dict res) ''bottle_upright'' =
                 Some (linalg_norm y \<noteq> 0
                       \<and> angle_from_3d_vectors y (V3 0 0 1) < upright_ori_diff_thresh cfg)))"
proof -
  from assms obtain fp fc s1 b where
    c: "compose_placement cfg (sim_state st (parent_obj_id cfg))
          (sim_state st (child_obj_id cfg)) (inferred_relative_trans inp)
          (sim_state st) = Inr (fp, fc, s1)"
    and d: "success_crit_dict res =
          AList.update ''fell_off_upside_down'' b
            (first_evaluation cfg phys (settle_placed phys s1))"
    by (elim trial_InrE) blast
  have k: "map fst (success_crit_dict res) =
           (if parent_class cfg = ''box_container'' \<and> child_class cfg = ''bottle''
            then [''touching_surf'', ''bottle_upright'', ''fell_off_upside_down'']
            else [''touching_surf'', ''fell_off_upside_down''])"
    by (simp add: d update_keys first_evaluation_keys)
  have "map_of (success_crit_dict res) ''bottle_upright'' =
          Some (linalg_norm (column1 (rot (settle_placed phys s1 (child_obj_id cfg)))) \<noteq> 0
                \<and> angle_from_3d_vectors
                    (column1 (rot (settle_placed phys s1 (child_obj_id cfg)))) (V3 0 0 1)
                  < upright_ori_diff_thresh cfg)"
    if "parent_class cfg = ''box_container'' \<and> child_class cfg = ''bottle''"
    using that
    by (simp add: d update_conv' first_evaluation_bottle bottle_upright_check_iff)
  with c k show ?thesis
    by blast
qed

theorem success_criteria_keys_witness:
  "\<exists>res st'. trial bench_cfg bench_phys 0 bench_input bench_state = Inr (res, st')
     \<and> map fst (success_crit_dict res) =
         [''touching_surf'', ''bottle_upright'', ''fell_off_upside_down'']
     \<and> map_of (success_crit_dict res) ''bottle_upright'' = Some True"
proof -
  obtain res st' where t: "trial bench_cfg bench_phys 0 bench_input bench_state = Inr (res, st')"
    and d: "success_crit_dict res =
      [(''touching_surf'', True), (''bottle_upright'', True), (''fell_off_upside_down'', True)]"
    using bench_trial by blast
  show ?thesis
    using success_criteria_keys [OF t] t d
    by (auto simp: bench_cfg_def)
qed

end
